theory Spec2Isabelle
  imports Complex_Main
begin

section \<open>Text and characters\<close>

text \<open>
  The resume engine of \<^verbatim>\<open>src/scrapers/resume_parser.py\<close> works on Python strings and on
  the patterns of Python's \<^verbatim>\<open>re\<close> module. A text is modelled as a list of characters with
  code points 0 to 255; on that range \<^verbatim>\<open>str.lower\<close>, \<^verbatim>\<open>str.strip\<close> and the classes
  \<^verbatim>\<open>\s\<close>, \<^verbatim>\<open>\w\<close>, \<^verbatim>\<open>\d\<close> below are the ones Python uses for \<^verbatim>\<open>str\<close>. The typographic bullets
  and dashes that some character classes of the source list (code points above 255) cannot
  occur in such a text, so those members are left out of the classes.
\<close>

definition code :: "char \<Rightarrow> nat" where
  "code c = of_char c"

definition rng :: "char \<Rightarrow> char \<Rightarrow> char \<Rightarrow> bool" where
  "rng lo hi c = (code lo \<le> code c \<and> code c \<le> code hi)"

definition one_of :: "string \<Rightarrow> char \<Rightarrow> bool" where
  "one_of s c = (c \<in> set s)"

definition nl :: char where
  "nl = CHR 0x0A"

definition is_space :: "char \<Rightarrow> bool" where
  "is_space c = (let n = code c in (9 \<le> n \<and> n \<le> 13) \<or> (28 \<le> n \<and> n \<le> 32) \<or> n = 133 \<or> n = 160)"

definition is_digit :: "char \<Rightarrow> bool" where
  "is_digit c = rng (CHR ''0'') (CHR ''9'') c"

definition is_word :: "char \<Rightarrow> bool" where
  "is_word c = (let n = code c in
     (48 \<le> n \<and> n \<le> 57) \<or> (65 \<le> n \<and> n \<le> 90) \<or> n = 95 \<or> (97 \<le> n \<and> n \<le> 122) \<or>
     n = 170 \<or> n = 178 \<or> n = 179 \<or> n = 181 \<or> n = 185 \<or> n = 186 \<or> (188 \<le> n \<and> n \<le> 190) \<or>
     (192 \<le> n \<and> n \<le> 214) \<or> (216 \<le> n \<and> n \<le> 246) \<or> (248 \<le> n \<and> n \<le> 255))"

definition char_lower :: "char \<Rightarrow> char" where
  "char_lower c = (let n = code c in
     if (65 \<le> n \<and> n \<le> 90) \<or> (192 \<le> n \<and> n \<le> 214) \<or> (216 \<le> n \<and> n \<le> 222)
     then char_of (n + 32) else c)"

definition str_lower :: "string \<Rightarrow> string" where
  "str_lower text = map char_lower text"

text \<open>\<^verbatim>\<open>not text.strip()\<close>: nothing is left once the white space is stripped.\<close>

definition blank :: "string \<Rightarrow> bool" where
  "blank text = list_all is_space text"

text \<open>Python's slice \<^verbatim>\<open>s[a:b]\<close>: a negative bound counts from the end, and both bounds are
  clipped to the string.\<close>

definition py_bound :: "int \<Rightarrow> int \<Rightarrow> int" where
  "py_bound n i = (if i < 0 then max 0 (n + i) else min i n)"

definition py_slice :: "string \<Rightarrow> int \<Rightarrow> int \<Rightarrow> string" where
  "py_slice s a b =
     (let n = int (length s); lo = py_bound n a; hi = py_bound n b
      in take (nat (hi - lo)) (drop (nat lo) s))"

section \<open>Regular expressions\<close>

text \<open>
  The patterns of the source use literals, character classes, \<^verbatim>\<open>\b\<close>, concatenation,
  alternation and the greedy quantifiers. \<open>ends r t i\<close> lists the positions at which a
  match of \<open>r\<close> that starts at position \<open>i\<close> of \<open>t\<close> can end, in the order in which a
  backtracking matcher tries them: the left alternative first, the longer repetition first.
  The head of the list is the match Python reports. An iteration of a starred pattern has
  to consume a character; every starred pattern of the source does.
\<close>

datatype regex =
    Eps
  | Cls "char \<Rightarrow> bool"
  | WordB
  | Seq regex regex
  | Alt regex regex
  | Star regex

definition word_boundary :: "string \<Rightarrow> nat \<Rightarrow> bool" where
  "word_boundary t i =
     ((0 < i \<and> i \<le> length t \<and> is_word (t ! (i - 1))) \<noteq> (i < length t \<and> is_word (t ! i)))"

function ends :: "regex \<Rightarrow> string \<Rightarrow> nat \<Rightarrow> nat list" where
  "ends Eps t i = [i]"
| "ends (Cls p) t i = (if i < length t \<and> p (t ! i) then [Suc i] else [])"
| "ends WordB t i = (if word_boundary t i then [i] else [])"
| "ends (Seq a b) t i = concat (map (ends b t) (ends a t i))"
| "ends (Alt a b) t i = ends a t i @ ends b t i"
| "ends (Star a) t i =
     concat (map (\<lambda>j. if i < j \<and> j \<le> length t then ends (Star a) t j else []) (ends a t i)) @ [i]"
  by pat_completeness auto
termination
  by (relation "(\<lambda>(r, t, i). size r) <*mlex*> measure (\<lambda>(r, t, i). length t - i)")
     (auto simp: wf_mlex mlex_less mlex_leq)

text \<open>\<^verbatim>\<open>re.search\<close>: the leftmost position with a match, and where that match ends.\<close>

definition search :: "regex \<Rightarrow> string \<Rightarrow> (nat \<times> nat) option" where
  "search r t =
     (case List.find (\<lambda>i. ends r t i \<noteq> []) [0..<Suc (length t)] of
        None \<Rightarrow> None
      | Some i \<Rightarrow> Some (i, hd (ends r t i)))"

text \<open>\<^verbatim>\<open>len(re.findall(p, s))\<close>: the number of matches found left to right, each search
  starting where the last match ended (one further after an empty match).\<close>

function count_from :: "regex \<Rightarrow> string \<Rightarrow> nat \<Rightarrow> nat" where
  "count_from r t i =
     (if length t < i then 0
      else case ends r t i of
             [] \<Rightarrow> count_from r t (Suc i)
           | e # _ \<Rightarrow> Suc (count_from r t (max e (Suc i))))"
  by pat_completeness auto
termination
  by (relation "measure (\<lambda>(r, t, i). Suc (length t) - i)") auto

definition findall_len :: "regex \<Rightarrow> string \<Rightarrow> int" where
  "findall_len r t = int (count_from r t 0)"

subsection \<open>Building patterns\<close>

definition chr :: "char \<Rightarrow> regex" where
  "chr c = Cls (\<lambda>x. x = c)"

definition seqs :: "regex list \<Rightarrow> regex" where
  "seqs rs = foldr Seq rs Eps"

text \<open>A string matched literally, as \<^verbatim>\<open>re.escape\<close> makes it.\<close>

definition lit :: "string \<Rightarrow> regex" where
  "lit s = seqs (map chr s)"

fun alts :: "regex list \<Rightarrow> regex" where
  "alts [] = Cls (\<lambda>_. False)"
| "alts [r] = r"
| "alts (r # rs) = Alt r (alts rs)"

definition plus :: "regex \<Rightarrow> regex" where
  "plus r = Seq r (Star r)"

definition opt :: "regex \<Rightarrow> regex" where
  "opt r = Alt r Eps"

definition sp :: regex where
  "sp = Cls is_space"

definition digit :: regex where
  "digit = Cls is_digit"

text \<open>\<^verbatim>\<open>'|'.join(words)\<close> inside a group: the words as alternatives, tried in order.\<close>

definition any_of :: "string list \<Rightarrow> regex" where
  "any_of ws = alts (map lit ws)"

text \<open>\<^verbatim>\<open>\b(w1|w2|...)\b\<close>\<close>

definition whole_word :: "regex \<Rightarrow> regex" where
  "whole_word r = seqs [WordB, r, WordB]"

section \<open>Section Locator\<close>

text \<open>\<^verbatim>\<open>r'\n\s*' + re.escape(header) + r'\s*[:\n]'\<close>\<close>

definition header_pattern :: "string \<Rightarrow> regex" where
  "header_pattern header =
     seqs [chr nl, Star sp, lit header, Star sp, Cls (\<lambda>c. c = CHR '':'' \<or> c = nl)]"

definition next_section_pattern :: regex where
  "next_section_pattern =
     seqs [chr nl, Star sp,
       alts [lit ''experience'',
             seqs [lit ''work'', plus sp, lit ''experience''],
             seqs [lit ''internship'', opt (chr CHR ''s'')],
             seqs [lit ''professional'', plus sp, lit ''experience''],
             seqs [lit ''project'', opt (chr CHR ''s'')],
             lit ''education'',
             seqs [lit ''academic'', plus sp, lit ''background''],
             seqs [lit ''certification'', opt (chr CHR ''s'')],
             seqs [lit ''certificate'', opt (chr CHR ''s'')],
             seqs [lit ''achievement'', opt (chr CHR ''s'')],
             seqs [lit ''award'', opt (chr CHR ''s'')],
             seqs [lit ''honor'', opt (chr CHR ''s'')],
             seqs [lit ''technical'', plus sp, lit ''skill'', opt (chr CHR ''s'')],
             seqs [lit ''skill'', opt (chr CHR ''s'')],
             lit ''extracurricular'',
             lit ''activities'',
             lit ''leadership'',
             seqs [lit ''position'', opt (chr CHR ''s''), plus sp, lit ''of'', plus sp,
                   lit ''responsibility''],
             lit ''training'',
             seqs [lit ''course'', opt (chr CHR ''s'')],
             seqs [lit ''publication'', opt (chr CHR ''s'')],
             seqs [lit ''reference'', opt (chr CHR ''s'')]],
       Star sp, Cls (\<lambda>c. c = CHR '':'' \<or> c = nl)]"

text \<open>The loop over \<^verbatim>\<open>section_headers\<close>: the first header of the list whose pattern matches
  anywhere decides; the section starts where that match ends and runs to the next section
  header, or for 3000 characters.\<close>

fun find_section_in :: "string \<Rightarrow> string list \<Rightarrow> int \<times> int" where
  "find_section_in text_lower [] = (- 1, - 1)"
| "find_section_in text_lower (header # headers) =
     (case search (header_pattern header) text_lower of
        Some (m_start, m_end) \<Rightarrow>
          (let start = m_end in
           case search next_section_pattern (drop start text_lower) of
             Some (next_start, next_end) \<Rightarrow> (int start, int (start + next_start))
           | None \<Rightarrow> (int start, int (start + 3000)))
      | None \<Rightarrow> find_section_in text_lower headers)"

definition find_section :: "string \<Rightarrow> string list \<Rightarrow> int \<times> int" where
  "find_section text section_headers = find_section_in (str_lower text) section_headers"

section \<open>Signal Aggregator\<close>

text \<open>
  The counters reconcile their signals in place. The internships and projects counters keep
  the positive signals, sort them and take the one at index \<^verbatim>\<open>len // 2\<close>
  (\<^verbatim>\<open>valid_indicators\<close>); when no signal is positive the counter goes on to its fallback,
  which is the result \<open>None\<close> here. The certifications counter takes \<^verbatim>\<open>max(indicators)\<close>.
\<close>

definition median_nonzero :: "int list \<Rightarrow> int option" where
  "median_nonzero indicators =
     (let valid_indicators = filter (\<lambda>i. i > 0) indicators
      in if valid_indicators \<noteq> []
         then Some (sort valid_indicators ! (length valid_indicators div 2))
         else None)"

definition max_signal :: "int list \<Rightarrow> int" where
  "max_signal indicators = foldl max (hd indicators) (tl indicators)"

section \<open>Multi-Signal Counters\<close>

fun rep :: "nat \<Rightarrow> regex \<Rightarrow> regex" where
  "rep 0 r = Eps"
| "rep (Suc n) r = Seq r (rep n r)"

fun upto_rep :: "nat \<Rightarrow> regex \<Rightarrow> regex" where
  "upto_rep 0 r = Eps"
| "upto_rep (Suc n) r = Alt (Seq r (upto_rep n r)) Eps"

definition lower_az :: "char \<Rightarrow> bool" where
  "lower_az c = rng (CHR ''a'') (CHR ''z'') c"

definition upper_az :: "char \<Rightarrow> bool" where
  "upper_az c = rng (CHR ''A'') (CHR ''Z'') c"

text \<open>\<^verbatim>\<open>\n\s*[...-]\s+\<close>: of the bullet characters only the hyphen has a code point
  below 256.\<close>

definition bullet_pattern :: regex where
  "bullet_pattern = seqs [chr nl, Star sp, chr CHR ''-'', plus sp]"

subsection \<open>Internships\<close>

definition exp_headers :: "string list" where
  "exp_headers = [''experience'', ''work experience'', ''professional experience'',
     ''internships'', ''internship'', ''work history'', ''employment'']"

definition months :: "string list" where
  "months = [''jan'', ''feb'', ''mar'', ''apr'', ''may'', ''jun'', ''jul'', ''aug'', ''sep'',
     ''oct'', ''nov'', ''dec'']"

definition date_pattern :: regex where
  "date_pattern =
     seqs [any_of months, Star (Cls lower_az), Star (Cls (\<lambda>c. is_space c \<or> one_of '',.-'' c)),
           rep 4 digit, Star sp, Cls (one_of ''-to''), Star sp,
           any_of (months @ [''present'', ''current'', ''ongoing''])]"

definition company_pattern :: regex where
  "company_pattern =
     seqs [chr nl, Star sp, Cls upper_az,
           plus (Cls (\<lambda>c. lower_az c \<or> upper_az c \<or> is_space c \<or> one_of ''&,.-'' c)),
           Alt (seqs [plus sp, Cls (one_of ''-|''), plus sp]) (seqs [Star sp, chr nl, Star sp]),
           Alt (seqs [Cls upper_az, plus (Cls lower_az),
                      opt (seqs [chr CHR '','', Star sp, rep 2 (Cls upper_az)])])
               (rep 4 digit)]"

definition role_keywords :: "string list" where
  "role_keywords = [''intern'', ''developer'', ''engineer'', ''analyst'', ''designer'',
     ''consultant'', ''associate'', ''trainee'', ''assistant'', ''specialist'',
     ''coordinator'', ''lead'', ''manager'', ''researcher'', ''programmer'',
     ''scientist'', ''architect'', ''administrator'', ''technician'']"

definition internship_fallback_pattern :: regex where
  "internship_fallback_pattern =
     whole_word (alts [lit ''intern'', lit ''internship'',
                       seqs [lit ''co'', opt (chr CHR ''-''), lit ''op''], lit ''trainee''])"

definition internship_indicators :: "string \<Rightarrow> string \<Rightarrow> int \<Rightarrow> int \<Rightarrow> int list" where
  "internship_indicators text text_lower start end =
     (let section_text = py_slice text_lower start end;
          date_patterns = findall_len date_pattern section_text;
          company_patterns = findall_len company_pattern (py_slice text start end);
          role_count = findall_len (whole_word (any_of role_keywords)) section_text;
          bullets = findall_len bullet_pattern section_text
      in [date_patterns, company_patterns, role_count, bullets div 4])"

definition count_internships :: "string \<Rightarrow> int" where
  "count_internships text =
     (let text_lower = str_lower text;
          (start, end) = find_section text exp_headers;
          fallback_count = findall_len internship_fallback_pattern text_lower
      in if start \<noteq> - 1 then
           (case median_nonzero (internship_indicators text text_lower start end) of
              Some count \<Rightarrow> min count 5
            | None \<Rightarrow> min (max fallback_count 0) 5)
         else min (max fallback_count 0) 5)"

subsection \<open>Projects\<close>

definition project_headers :: "string list" where
  "project_headers = [''projects'', ''personal projects'', ''academic projects'',
     ''key projects'', ''technical projects'', ''major projects'',
     ''project work'', ''project experience'']"

definition title_pattern :: regex where
  "title_pattern =
     seqs [chr nl, Star sp, Cls upper_az,
           plus (Cls (\<lambda>c. lower_az c \<or> upper_az c \<or> is_digit c \<or> is_space c)),
           Star sp, Cls (one_of ''|-''), Star sp,
           plus (Cls (\<lambda>c. upper_az c \<or> lower_az c \<or> is_space c \<or> one_of '',.+#'' c))]"

definition action_verbs :: "string list" where
  "action_verbs = [''developed'', ''built'', ''created'', ''designed'', ''implemented'',
     ''engineered'', ''constructed'', ''programmed'', ''coded'', ''architected'',
     ''deployed'', ''launched'', ''established'', ''integrated'', ''devised'']"

definition tech_pattern :: regex where
  "tech_pattern =
     alts [seqs [lit ''web'', plus sp, lit ''application''],
           seqs [lit ''mobile'', plus sp, lit ''app''],
           lit ''system'', lit ''platform'', lit ''api'', lit ''website'', lit ''software'',
           lit ''tool'', lit ''dashboard'', lit ''interface'', lit ''database'',
           lit ''algorithm'', lit ''model'', lit ''framework'']"

definition link_pattern :: regex where
  "link_pattern = alts [lit ''github.com'', lit ''gitlab.com'', lit ''bitbucket.org'']"

definition project_fallback_pattern :: regex where
  "project_fallback_pattern =
     seqs [any_of [''developed'', ''built'', ''created''], plus sp,
           opt (any_of [''a'', ''an'', ''the'']), Star sp,
           upto_rep 3 (seqs [plus (Cls is_word), plus sp]),
           any_of [''application'', ''system'', ''platform'', ''website'', ''tool'']]"

definition project_indicators :: "string \<Rightarrow> string \<Rightarrow> int \<Rightarrow> int \<Rightarrow> int list" where
  "project_indicators text text_lower start end =
     (let section_text = py_slice text_lower start end;
          original_section = py_slice text start end;
          title_patterns = findall_len title_pattern original_section;
          action_count = findall_len (whole_word (any_of action_verbs)) section_text;
          tech_indicators = findall_len tech_pattern section_text;
          bullets = findall_len bullet_pattern section_text;
          github_links = findall_len link_pattern section_text
      in [title_patterns, action_count div 2, tech_indicators div 2, bullets div 3,
          github_links])"

definition count_projects :: "string \<Rightarrow> int" where
  "count_projects text =
     (let text_lower = str_lower text;
          (start, end) = find_section text project_headers;
          fallback = findall_len project_fallback_pattern text_lower
      in if start \<noteq> - 1 then
           (case median_nonzero (project_indicators text text_lower start end) of
              Some count \<Rightarrow> min (max count 1) 8
            | None \<Rightarrow> min (max fallback 0) 8)
         else min (max fallback 0) 8)"

subsection \<open>Certifications\<close>

definition cert_headers :: "string list" where
  "cert_headers = [''certifications'', ''certification'', ''certificates'',
     ''licenses and certifications'', ''professional certifications'',
     ''courses'', ''online courses'', ''training'', ''courses and certifications'']"

definition platforms :: "string list" where
  "platforms = [''coursera'', ''udemy'', ''edx'', ''linkedin learning'', ''pluralsight'',
     ''udacity'', ''codecademy'', ''freecodecamp'', ''khan academy'',
     ''microsoft'', ''google'', ''amazon'', ''ibm'', ''oracle'', ''cisco'',
     ''aws'', ''azure'', ''comptia'', ''nptel'', ''swayam'']"

definition cert_keyword_pattern :: regex where
  "cert_keyword_pattern =
     whole_word (any_of [''certified'', ''certification'', ''certificate'', ''credential'',
                         ''diploma'', ''course'', ''training'', ''completion''])"

definition year_pattern :: regex where
  "year_pattern =
     whole_word (Alt (seqs [lit ''20'', rep 2 digit]) (seqs [lit ''19'', rep 2 digit]))"

definition common_cert_pattern :: regex where
  "common_cert_pattern =
     alts [seqs [lit ''aws'', plus sp, lit ''certified''],
           seqs [lit ''google'', plus sp, lit ''certified''],
           seqs [lit ''microsoft'', plus sp, lit ''certified''],
           seqs [lit ''cisco'', plus sp, lit ''certified''],
           lit ''python'', lit ''java'',
           seqs [lit ''machine'', plus sp, lit ''learning''],
           seqs [lit ''data'', plus sp, lit ''science''],
           seqs [lit ''web'', plus sp, lit ''development''],
           seqs [lit ''full'', plus sp, lit ''stack'']]"

definition cert_fallback_pattern :: regex where
  "cert_fallback_pattern =
     whole_word (alts [lit ''coursera'', lit ''udemy'', lit ''nptel'',
                       seqs [lit ''aws'', plus sp, lit ''certified''],
                       seqs [lit ''google'', plus sp, lit ''certified'']])"

definition cert_indicators :: "string \<Rightarrow> int \<Rightarrow> int \<Rightarrow> int list" where
  "cert_indicators text_lower start end =
     (let section_text = py_slice text_lower start end;
          bullets = findall_len bullet_pattern section_text;
          platform_count = findall_len (whole_word (any_of platforms)) section_text;
          cert_keywords = findall_len cert_keyword_pattern section_text;
          dates = findall_len year_pattern section_text;
          common_certs = findall_len common_cert_pattern section_text
      in [bullets, platform_count, cert_keywords div 2, dates, common_certs])"

definition count_certifications :: "string \<Rightarrow> int" where
  "count_certifications text =
     (let text_lower = str_lower text;
          (start, end) = find_section text cert_headers;
          fallback = findall_len cert_fallback_pattern text_lower
      in if start \<noteq> - 1 then
           (let indicators = cert_indicators text_lower start end
            in if indicators \<noteq> [] then min (max_signal indicators) 10
               else min (max fallback 0) 10)
         else min (max fallback 0) 10)"

subsection \<open>Skills\<close>

text \<open>The vocabulary, category by category, in the order of \<^verbatim>\<open>skill_categories\<close>.\<close>

definition all_skills :: "string list" where
  "all_skills =
     [''python'', ''java'', ''javascript'', ''typescript'', ''c++'', ''cpp'', ''c#'',
      ''c'', ''go'', ''golang'', ''rust'', ''kotlin'', ''swift'', ''ruby'', ''php'',
      ''scala'', ''r'', ''matlab'', ''perl'', ''haskell'', ''dart'', ''shell'',
      ''bash'', ''powershell'', ''objective-c'', ''assembly'', ''sql'', ''pl/sql''] @
     [''html'', ''css'', ''html5'', ''css3'', ''react'', ''reactjs'', ''angular'',
      ''angularjs'', ''vue'', ''vuejs'', ''svelte'', ''next.js'', ''nextjs'',
      ''nuxt'', ''gatsby'', ''redux'', ''jquery'', ''bootstrap'', ''tailwind'',
      ''material-ui'', ''mui'', ''sass'', ''scss'', ''less'', ''webpack'', ''vite''] @
     [''node.js'', ''nodejs'', ''node'', ''express'', ''expressjs'', ''django'',
      ''flask'', ''fastapi'', ''spring boot'', ''spring'', ''asp.net'', ''dotnet'',
      ''.net'', ''laravel'', ''rails'', ''ruby on rails'', ''graphql'', ''rest api'',
      ''restful'', ''microservices'', ''serverless'', ''websocket''] @
     [''android'', ''ios'', ''react native'', ''flutter'', ''kotlin'',
      ''swift'', ''swiftui'', ''xamarin'', ''ionic'', ''cordova''] @
     [''mysql'', ''postgresql'', ''mongodb'', ''redis'', ''sqlite'', ''oracle'',
      ''sql server'', ''mssql'', ''cassandra'', ''dynamodb'', ''firebase'',
      ''firestore'', ''elasticsearch'', ''neo4j'', ''couchdb'', ''mariadb''] @
     [''aws'', ''azure'', ''gcp'', ''google cloud'', ''docker'', ''kubernetes'',
      ''k8s'', ''jenkins'', ''terraform'', ''ansible'', ''ci/cd'', ''github actions'',
      ''gitlab ci'', ''circleci'', ''travis ci'', ''heroku'', ''netlify'', ''vercel''] @
     [''machine learning'', ''deep learning'', ''tensorflow'', ''pytorch'',
      ''keras'', ''scikit-learn'', ''sklearn'', ''pandas'', ''numpy'', ''opencv'',
      ''nlp'', ''computer vision'', ''neural networks'', ''transformers'',
      ''bert'', ''gpt'', ''cnn'', ''rnn'', ''lstm'', ''gan'', ''xgboost''] @
     [''data analysis'', ''data science'', ''data visualization'', ''tableau'',
      ''power bi'', ''matplotlib'', ''seaborn'', ''plotly'', ''jupyter'',
      ''apache spark'', ''hadoop'', ''kafka'', ''airflow'', ''etl''] @
     [''git'', ''github'', ''gitlab'', ''bitbucket'', ''svn'', ''vs code'',
      ''visual studio'', ''intellij'', ''pycharm'', ''eclipse'', ''android studio'',
      ''xcode'', ''postman'', ''insomnia'', ''jira'', ''confluence'', ''trello'',
      ''slack'', ''figma'', ''adobe xd''] @
     [''data structures'', ''algorithms'', ''oop'', ''oops'', ''design patterns'',
      ''system design'', ''distributed systems'', ''multithreading'',
      ''networking'', ''operating systems'', ''dbms'', ''agile'', ''scrum'',
      ''tdd'', ''testing'', ''unit testing'', ''api development'']"

text \<open>
  The pattern built for one skill: \<^verbatim>\<open>+ . # /\<close> are escaped, a blank becomes \<^verbatim>\<open>\s+\<close>,
  and the whole stands between two \<^verbatim>\<open>\b\<close>. The vocabulary has letters, digits, blanks,
  hyphens and the four escaped characters only, so every other character is a literal.
\<close>

definition skill_regex :: "string \<Rightarrow> regex" where
  "skill_regex skill =
     seqs [WordB, seqs (map (\<lambda>c. if c = CHR '' '' then plus sp else chr c) skill), WordB]"

text \<open>\<^verbatim>\<open>found_skills\<close> is a set: a skill listed under two categories counts once.\<close>

definition found_skills :: "string \<Rightarrow> string list" where
  "found_skills text_lower =
     remdups (filter (\<lambda>skill. search (skill_regex skill) text_lower \<noteq> None) all_skills)"

definition skill_headers :: "string list" where
  "skill_headers = [''skills'', ''technical skills'', ''core competencies'', ''technologies'']"

definition count_skills :: "string \<Rightarrow> int" where
  "count_skills text =
     (let text_lower = str_lower text;
          found = int (length (found_skills text_lower));
          (start, end) = find_section text skill_headers;
          bonus_skills =
            (if start \<noteq> - 1 then
               (let skills_text = py_slice text_lower start end;
                    separators = findall_len (Cls (one_of '',;'')) skills_text
                in if separators > found then separators - found else 0)
             else 0);
          total_skills = found + bonus_skills div 2
      in min total_skills 30)"

subsection \<open>Achievements\<close>

definition achievement_headers :: "string list" where
  "achievement_headers = [''achievements'', ''achievement'', ''awards'', ''honors'',
     ''accomplishments'', ''awards and honors'', ''recognitions'', ''scholarships'']"

definition extra_headers :: "string list" where
  "extra_headers = [''extracurricular'', ''activities'', ''leadership'',
     ''positions of responsibility'']"

definition word :: "string \<Rightarrow> regex" where
  "word w = whole_word (lit w)"

definition cp_patterns :: "regex list" where
  "cp_patterns =
     [word ''gate'', word ''leetcode'', word ''codeforces'', word ''codechef'',
      word ''hackerrank'', word ''hackerearth'', word ''topcoder'',
      word ''atcoder'', word ''gfg'', word ''geeksforgeeks'',
      seqs [WordB, lit ''solved'', plus sp, plus digit, opt (chr CHR ''+''), plus sp,
            Alt (seqs [lit ''problem'', opt (chr CHR ''s'')])
                (seqs [lit ''question'', opt (chr CHR ''s'')])],
      seqs [plus digit, Star sp, opt (chr CHR ''-''), Star sp, lit ''star'', WordB],
      seqs [WordB, lit ''rating'', Star sp, opt (chr CHR '':''), Star sp,
            rep 3 digit, opt digit, WordB],
      seqs [WordB, lit ''rank'', Star sp, opt (chr CHR '':''), Star sp, plus digit],
      seqs [WordB, lit ''air'', plus sp, plus digit],
      seqs [WordB, lit ''top'', plus sp, plus digit, opt (chr CHR ''%'')]]"

definition award_patterns :: "regex list" where
  "award_patterns =
     [word ''scholarship'', word ''fellowship'', word ''award'',
      word ''winner'', word ''finalist'', word ''champion'',
      word ''merit'',
      seqs [WordB, lit ''dean'', opt (chr (CHR 0x27)), lit ''s'', plus sp, lit ''list'', WordB],
      seqs [WordB, lit ''honor'', plus sp, lit ''roll'', WordB],
      seqs [WordB, any_of [''first'', ''1st'', ''second'', ''2nd'', ''third'', ''3rd''], plus sp,
            any_of [''place'', ''position'', ''prize'', ''rank''], WordB],
      seqs [WordB, lit ''gold'', plus sp, lit ''medal'', WordB],
      seqs [WordB, lit ''silver'', plus sp, lit ''medal'', WordB],
      seqs [WordB, lit ''bronze'', plus sp, lit ''medal'', WordB]]"

definition competition_patterns :: "regex list" where
  "competition_patterns =
     [word ''hackathon'', word ''competition'', word ''contest'',
      seqs [WordB, lit ''code'', Star sp, lit ''jam'', WordB],
      seqs [WordB, lit ''hash'', Star sp, lit ''code'', WordB],
      seqs [WordB, lit ''kick'', Star sp, lit ''start'', WordB]]"

definition leadership_patterns :: "regex list" where
  "leadership_patterns =
     [whole_word (any_of [''president'', ''vice president'', ''vp'', ''secretary'', ''treasurer'']),
      whole_word (any_of [''head'', ''lead'', ''captain'', ''coordinator'', ''director'', ''chair'']),
      whole_word (any_of [''founder'', ''co-founder'', ''organizer'', ''mentor'']),
      seqs [WordB, lit ''core'', plus sp, opt (seqs [lit ''team'', plus sp]), lit ''member'', WordB],
      seqs [WordB, lit ''project'', plus sp, lit ''lead'', WordB],
      whole_word (any_of [''organized'', ''conducted'', ''led'', ''managed'', ''spearheaded''])]"

text \<open>\<^verbatim>\<open>sum(len(re.findall(p, section_text)) for p in patterns)\<close>\<close>

definition sum_matches :: "regex list \<Rightarrow> string \<Rightarrow> int" where
  "sum_matches patterns section_text = sum_list (map (\<lambda>p. findall_len p section_text) patterns)"

definition cert_as_achievement_pattern :: regex where
  "cert_as_achievement_pattern =
     whole_word (alts [lit ''nptel'', lit ''coursera'', lit ''udemy'',
                       seqs [lit ''aws'', plus sp, lit ''certified''],
                       seqs [lit ''google'', plus sp, lit ''certified'']])"

definition count_achievements :: "string \<Rightarrow> int" where
  "count_achievements text =
     (let text_lower = str_lower text;
          (start, end) = find_section text achievement_headers;
          total_count =
            (if start \<noteq> - 1 then
               (let section_text = py_slice text_lower start end;
                    bullets = findall_len bullet_pattern section_text;
                    all_patterns = cp_patterns @ award_patterns @ competition_patterns;
                    pattern_matches = sum_matches all_patterns section_text
                in max bullets pattern_matches)
             else 0);
          (start, end) = find_section text extra_headers;
          total_count =
            (if start \<noteq> - 1 then
               (let section_text = py_slice text_lower start end;
                    leadership_count = sum_matches leadership_patterns section_text
                in max total_count (leadership_count div 2))
             else total_count);
          total_count =
            (if total_count = 0 then
               (let cert_as_achievement = findall_len cert_as_achievement_pattern text_lower
                in max total_count cert_as_achievement)
             else total_count)
      in min total_count 8)"

section \<open>Metrics Assembler\<close>

text \<open>
  A metrics dictionary is a list of key and value pairs in insertion order. The literal of
  \<^verbatim>\<open>parse_resume\<close> has the five keys below.
\<close>

type_synonym metrics = "(string \<times> int) list"

definition mk_metrics :: "int \<Rightarrow> int \<Rightarrow> int \<Rightarrow> int \<Rightarrow> int \<Rightarrow> metrics" where
  "mk_metrics i p c s a =
     [(''internships'', i), (''projects'', p), (''certifications'', c), (''skills'', s),
      (''achievements'', a)]"

datatype py_error = ImportError | ValueError | KeyError | OSError | OtherError

text \<open>
  \<^verbatim>\<open>parse_resume\<close> reads a file and runs the five counters inside one \<^verbatim>\<open>try\<close> block whose
  handler catches every exception and returns \<^verbatim>\<open>None\<close>. Reading the file is the work of
  other libraries, so its outcome (the text, or the exception raised) is an argument. To
  say what the handler does when a counter raises, the five calls are taken as functions
  that may raise; \<open>parse_resume\<close> below passes the counters of this theory, which never do.
\<close>

record counters =
  internships_of :: "string \<Rightarrow> py_error + int"
  projects_of :: "string \<Rightarrow> py_error + int"
  certifications_of :: "string \<Rightarrow> py_error + int"
  skills_of :: "string \<Rightarrow> py_error + int"
  achievements_of :: "string \<Rightarrow> py_error + int"

text \<open>The body of the \<^verbatim>\<open>try\<close> block: the first exception raised ends it.\<close>

definition or_raise :: "py_error + 'a \<Rightarrow> ('a \<Rightarrow> py_error + 'b) \<Rightarrow> py_error + 'b" where
  "or_raise r k = (case r of Inl e \<Rightarrow> Inl e | Inr v \<Rightarrow> k v)"

definition parse_body :: "counters \<Rightarrow> py_error + string \<Rightarrow> py_error + metrics" where
  "parse_body cs extracted =
     or_raise extracted (\<lambda>text.
       if blank text then Inl ValueError
       else
         or_raise (internships_of cs text) (\<lambda>i.
         or_raise (projects_of cs text) (\<lambda>p.
         or_raise (certifications_of cs text) (\<lambda>c.
         or_raise (skills_of cs text) (\<lambda>s.
         or_raise (achievements_of cs text) (\<lambda>a.
           Inr (mk_metrics i p c s a)))))))"

definition parse_resume_with :: "counters \<Rightarrow> py_error + string \<Rightarrow> metrics option" where
  "parse_resume_with cs extracted =
     (case parse_body cs extracted of Inl e \<Rightarrow> None | Inr metrics \<Rightarrow> Some metrics)"

definition resume_counters :: counters where
  "resume_counters =
     \<lparr> internships_of = (\<lambda>text. Inr (count_internships text)),
       projects_of = (\<lambda>text. Inr (count_projects text)),
       certifications_of = (\<lambda>text. Inr (count_certifications text)),
       skills_of = (\<lambda>text. Inr (count_skills text)),
       achievements_of = (\<lambda>text. Inr (count_achievements text)) \<rparr>"

definition parse_resume :: "py_error + string \<Rightarrow> metrics option" where
  "parse_resume extracted = parse_resume_with resume_counters extracted"

section \<open>Score Normalizer\<close>

text \<open>
  Python's floats are modelled by rationals. \<^verbatim>\<open>round(x)\<close> rounds to the nearest integer
  and a tie to the even one; \<^verbatim>\<open>round(x, 2)\<close> does the same at the second decimal. The
  products rounded by \<^verbatim>\<open>calculate_resume_score\<close> are multiples of 0.25 (see
  \<open>contribution_4_25\<close> and its neighbours below), which floats hold exactly or round back
  to, so no tie at the third decimal arises where a float could differ from the rational.
\<close>

definition py_round :: "rat \<Rightarrow> int" where
  "py_round x =
     (let f = \<lfloor>x\<rfloor>; d = x - of_int f
      in if d < 1 / 2 then f else if 1 / 2 < d then f + 1 else if even f then f else f + 1)"

definition py_round2 :: "rat \<Rightarrow> rat" where
  "py_round2 x = of_int (py_round (x * 100)) / 100"

definition weights :: "(string \<times> int) list" where
  "weights = [(''internships'', 30), (''projects'', 25), (''certifications'', 20),
     (''skills'', 15), (''achievements'', 10)]"

definition max_values :: "(string \<times> int) list" where
  "max_values = [(''internships'', 3), (''projects'', 4), (''certifications'', 5),
     (''skills'', 20), (''achievements'', 5)]"

text \<open>The loop \<^verbatim>\<open>for key in metrics\<close>; a key outside the two tables raises \<^verbatim>\<open>KeyError\<close>.
  The keys of a dictionary are distinct, so the value read at \<^verbatim>\<open>metrics[key]\<close> is the one
  of the pair at hand.\<close>

fun score_entries :: "metrics \<Rightarrow> py_error + (string \<times> rat) list" where
  "score_entries [] = Inr []"
| "score_entries ((key, value) # rest) =
     (case (map_of max_values key, map_of weights key) of
        (Some max_value, Some weight) \<Rightarrow>
          (let capped_value = min value max_value;
               normalized = of_int capped_value / of_int max_value;
               score = py_round2 (normalized * of_int weight)
           in case score_entries rest of
                Inl e \<Rightarrow> Inl e
              | Inr scores \<Rightarrow> Inr ((key @ ''_score'', score) # scores))
      | _ \<Rightarrow> Inl KeyError)"

definition calculate_resume_score :: "metrics \<Rightarrow> py_error + (string \<times> rat) list" where
  "calculate_resume_score metrics =
     (case score_entries metrics of
        Inl e \<Rightarrow> Inl e
      | Inr scores \<Rightarrow>
          (let total_score = py_round (sum_list (map snd scores))
           in Inr (scores @ [(''total_score'', of_int total_score)])))"

text \<open>The source wraps the result as \<^verbatim>\<open>{"scores": scores}\<close>; the model returns \<open>scores\<close>.
  \<open>score_of\<close> reads one entry of it.\<close>

definition score_of :: "string \<Rightarrow> py_error + (string \<times> rat) list \<Rightarrow> rat option" where
  "score_of key result = (case result of Inl e \<Rightarrow> None | Inr scores \<Rightarrow> map_of scores key)"

text \<open>
  One weighted contribution in the words of the specification: the value is capped at a
  ceiling, divided by that ceiling and multiplied by the weight, and the product is rounded
  to two decimals.
\<close>

definition contribution :: "int \<Rightarrow> int \<Rightarrow> int \<Rightarrow> rat" where
  "contribution cap weight value =
     py_round2 (of_int (min value cap) / of_int cap * of_int weight)"

text \<open>The sum of the five contributions of the source's tables, before the final rounding.\<close>

definition exact_total :: "int \<Rightarrow> int \<Rightarrow> int \<Rightarrow> int \<Rightarrow> int \<Rightarrow> rat" where
  "exact_total i p c s a =
     of_int (10 * min i 3) + of_int (25 * min p 4) / 4 + of_int (4 * min c 5) +
     of_int (3 * min s 20) / 4 + of_int (2 * min a 5)"

section \<open>Vocabulary of the claims\<close>

text \<open>
  A phrase preceded by a newline: position \<open>i\<close> of the text holds a newline, the phrase
  starts at a later position \<open>j\<close>, and only white space lies between the two.
\<close>

definition header_after_newline :: "string \<Rightarrow> string \<Rightarrow> bool" where
  "header_after_newline h t =
     list_ex (\<lambda>i. t ! i = nl \<and>
        list_ex (\<lambda>j. list_all (\<lambda>k. is_space (t ! k)) [Suc i..<j] \<and> take (length h) (drop j t) = h)
          [Suc i..<Suc (length t)])
       [0..<length t]"


text \<open>Counters of which the second raises, to exercise the handler of \<^verbatim>\<open>parse_resume\<close>.\<close>

definition failing_counters :: counters where
  "failing_counters =
     \<lparr> internships_of = (\<lambda>text. Inr 2),
       projects_of = (\<lambda>text. Inl OtherError),
       certifications_of = (\<lambda>text. Inr 1),
       skills_of = (\<lambda>text. Inr 9),
       achievements_of = (\<lambda>text. Inr 0) \<rparr>"

section \<open>Facts about the model\<close>

subsection \<open>Counters and scores\<close>

lemma findall_len_nonneg: "0 \<le> findall_len r t"
  by (simp add: findall_len_def)

lemma median_nonzero_Some:
  assumes "median_nonzero xs = Some c"
  shows "0 < c \<and> c \<in> set xs"
proof -
  let ?v = "filter (\<lambda>i. i > 0) xs"
  from assms have ne: "?v \<noteq> []" and c: "c = sort ?v ! (length ?v div 2)"
    by (auto simp: median_nonzero_def Let_def split: if_splits)
  from ne have "length ?v div 2 < length (sort ?v)" by simp
  then have "c \<in> set (sort ?v)" unfolding c by (rule nth_mem)
  then show ?thesis by auto
qed

lemma foldl_max_Max: "foldl max (a::int) xs = Max (set (a # xs))"
proof (induction xs arbitrary: a)
  case Nil
  then show ?case by simp
next
  case (Cons x xs)
  have "foldl max a (x # xs) = Max (set (max a x # xs))" using Cons.IH by simp
  also have "\<dots> = Max (set (a # x # xs))"
    by (cases "xs = []") (simp_all add: max.assoc)
  finally show ?case .
qed

lemma max_signal_Max: "xs \<noteq> [] \<Longrightarrow> max_signal xs = Max (set xs)"
  by (cases xs) (simp_all add: max_signal_def foldl_max_Max del: foldl_Cons set_simps)

lemma py_round_of_int: "py_round (of_int n) = n"
  by (simp add: py_round_def)

lemma py_round_nonneg: "0 \<le> x \<Longrightarrow> 0 \<le> py_round x"
  by (auto simp: py_round_def Let_def)

lemma py_round_le: "x \<le> of_int n \<Longrightarrow> py_round x \<le> n"
proof -
  assume le: "x \<le> of_int n"
  then have fl: "\<lfloor>x\<rfloor> \<le> n" by (simp add: floor_le_iff) 
  show ?thesis
  proof (cases "\<lfloor>x\<rfloor> = n")
    case True
    then have "of_int n \<le> x" using of_int_floor_le[of x] by simp
    with le have "x = of_int n" by simp
    then show ?thesis by (simp add: py_round_of_int)
  next
    case False
    with fl have "\<lfloor>x\<rfloor> + 1 \<le> n" by simp
    then show ?thesis by (auto simp: py_round_def Let_def)
  qed
qed

lemma py_round2_cents: "py_round2 (of_int n / 100) = of_int n / 100"
  by (simp add: py_round2_def py_round_of_int)

lemma score_entries_mk:
  "score_entries (mk_metrics i p c s a) =
     Inr [(''internships_score'', py_round2 (of_int (min i 3) / of_int 3 * of_int 30)),
          (''projects_score'', py_round2 (of_int (min p 4) / of_int 4 * of_int 25)),
          (''certifications_score'', py_round2 (of_int (min c 5) / of_int 5 * of_int 20)),
          (''skills_score'', py_round2 (of_int (min s 20) / of_int 20 * of_int 15)),
          (''achievements_score'', py_round2 (of_int (min a 5) / of_int 5 * of_int 10))]"
  by (simp add: mk_metrics_def max_values_def weights_def Let_def)


lemma contribution_3_30: "contribution 3 30 v = of_int (10 * min v 3)"
proof -
  have "of_int (min v 3) / of_int 3 * of_int 30 = (of_int (1000 * min v 3) / 100 :: rat)"
    by simp
  then show ?thesis
    unfolding contribution_def by (simp only: py_round2_cents)
qed

lemma contribution_4_25: "contribution 4 25 v = of_int (25 * min v 4) / 4"
proof -
  have "of_int (min v 4) / of_int 4 * of_int 25 = (of_int (625 * min v 4) / 100 :: rat)"
    by simp
  then show ?thesis
    unfolding contribution_def by (simp only: py_round2_cents)
qed

lemma contribution_5_20: "contribution 5 20 v = of_int (4 * min v 5)"
proof -
  have "of_int (min v 5) / of_int 5 * of_int 20 = (of_int (400 * min v 5) / 100 :: rat)"
    by simp
  then show ?thesis
    unfolding contribution_def by (simp only: py_round2_cents)
qed

lemma contribution_20_15: "contribution 20 15 v = of_int (3 * min v 20) / 4"
proof -
  have "of_int (min v 20) / of_int 20 * of_int 15 = (of_int (75 * min v 20) / 100 :: rat)"
    by simp
  then show ?thesis
    unfolding contribution_def by (simp only: py_round2_cents)
qed

lemma contribution_5_10: "contribution 5 10 v = of_int (2 * min v 5)"
proof -
  have "of_int (min v 5) / of_int 5 * of_int 10 = (of_int (200 * min v 5) / 100 :: rat)"
    by simp
  then show ?thesis
    unfolding contribution_def by (simp only: py_round2_cents)
qed

lemma score_entries_contribution:
  "score_entries (mk_metrics i p c s a) =
     Inr [(''internships_score'', contribution 3 30 i),
          (''projects_score'', contribution 4 25 p),
          (''certifications_score'', contribution 5 20 c),
          (''skills_score'', contribution 20 15 s),
          (''achievements_score'', contribution 5 10 a)]"
  by (simp only: score_entries_mk contribution_def)

lemma calculate_resume_score_mk:
  "calculate_resume_score (mk_metrics i p c s a) =
     Inr [(''internships_score'', contribution 3 30 i),
          (''projects_score'', contribution 4 25 p),
          (''certifications_score'', contribution 5 20 c),
          (''skills_score'', contribution 20 15 s),
          (''achievements_score'', contribution 5 10 a),
          (''total_score'', of_int (py_round (exact_total i p c s a)))]"
  unfolding calculate_resume_score_def score_entries_contribution exact_total_def
  by (simp add: contribution_3_30 contribution_4_25 contribution_5_20 contribution_20_15
      contribution_5_10 Let_def add.assoc)

lemma total_score_mk:
  "score_of ''total_score'' (calculate_resume_score (mk_metrics i p c s a)) =
     Some (of_int (py_round (exact_total i p c s a)))"
  by (simp add: calculate_resume_score_mk score_of_def)

lemma exact_total_bounds:
  assumes "0 \<le> i" "0 \<le> p" "0 \<le> c" "0 \<le> s" "0 \<le> a"
  shows "0 \<le> exact_total i p c s a \<and> exact_total i p c s a \<le> of_int 100"
proof -
  have lo: "0 \<le> min i 3" "0 \<le> min p 4" "0 \<le> min c 5" "0 \<le> min s 20" "0 \<le> min a 5"
    using assms by simp_all
  have hi: "min i 3 \<le> 3" "min p 4 \<le> 4" "min c 5 \<le> 5" "min s 20 \<le> 20" "min a 5 \<le> 5"
    by simp_all
  have "4 * exact_total i p c s a =
      of_int (40 * min i 3 + 25 * min p 4 + 16 * min c 5 + 3 * min s 20 + 8 * min a 5)"
    by (simp add: exact_total_def algebra_simps)
  moreover have "0 \<le> 40 * min i 3 + 25 * min p 4 + 16 * min c 5 + 3 * min s 20 + 8 * min a 5"
    using lo by linarith
  moreover have "40 * min i 3 + 25 * min p 4 + 16 * min c 5 + 3 * min s 20 + 8 * min a 5 \<le> 400"
    using hi by linarith
  ultimately have "0 \<le> 4 * exact_total i p c s a" "4 * exact_total i p c s a \<le> 400"
    by (simp_all only: of_int_0_le_iff of_int_le_iff[of _ 400, simplified])
  then show ?thesis by simp
qed


lemma count_internships_bounds: "0 \<le> count_internships text \<and> count_internships text \<le> 5"
  using findall_len_nonneg[of internship_fallback_pattern "str_lower text"]
  by (auto simp: count_internships_def Let_def split: prod.splits option.splits
      dest!: median_nonzero_Some)

lemma count_projects_bounds: "0 \<le> count_projects text \<and> count_projects text \<le> 8"
  using findall_len_nonneg[of project_fallback_pattern "str_lower text"]
  by (auto simp: count_projects_def Let_def split: prod.splits option.splits
      dest!: median_nonzero_Some)

lemma max_signal_cert_nonneg: "0 \<le> max_signal (cert_indicators text_lower start end)"
  using findall_len_nonneg[of bullet_pattern "py_slice text_lower start end"]
  by (simp add: cert_indicators_def max_signal_def Let_def le_max_iff_disj)

lemma count_certifications_bounds:
  "0 \<le> count_certifications text \<and> count_certifications text \<le> 10"
  using findall_len_nonneg[of cert_fallback_pattern "str_lower text"]
    max_signal_cert_nonneg
  by (auto simp: count_certifications_def Let_def split: prod.splits)

lemma count_skills_bounds: "0 \<le> count_skills text \<and> count_skills text \<le> 30"
  by (auto simp: count_skills_def Let_def split: prod.splits)

lemma sum_matches_nonneg: "0 \<le> sum_matches patterns t"
  unfolding sum_matches_def by (rule sum_list_nonneg) (auto simp: findall_len_nonneg)

lemma count_achievements_bounds:
  "0 \<le> count_achievements text \<and> count_achievements text \<le> 8"
proof -
  have b: "\<And>t. 0 \<le> findall_len bullet_pattern t" by (rule findall_len_nonneg)
  have c: "0 \<le> findall_len cert_as_achievement_pattern (str_lower text)"
    by (rule findall_len_nonneg)
  show ?thesis
    using c
    by (auto simp: count_achievements_def Let_def le_max_iff_disj b sum_matches_nonneg
        split: prod.splits)
qed

subsection \<open>Matching\<close>

declare ends.simps(6) [simp del]

lemma ends_seqs_Nil: "ends (seqs []) t i = [i]"
  by (simp add: seqs_def)

lemma ends_seqs_Cons: "ends (seqs (r # rs)) t i = concat (map (ends (seqs rs) t) (ends r t i))"
  by (simp add: seqs_def)

lemma ends_chr: "e \<in> set (ends (chr c) t i) \<longleftrightarrow> i < length t \<and> t ! i = c \<and> e = Suc i"
  by (auto simp: chr_def)

lemma ends_Star_Cls:
  "e \<in> set (ends (Star (Cls p)) t i) \<Longrightarrow>
     i \<le> e \<and> (e = i \<or> e \<le> length t) \<and> (\<forall>k. i \<le> k \<and> k < e \<longrightarrow> p (t ! k))"
proof (induction "length t - i" arbitrary: i rule: less_induct)
  case less
  show ?case
  proof (cases "i < length t \<and> p (t ! i)")
    case True
    then have "ends (Star (Cls p)) t i = ends (Star (Cls p)) t (Suc i) @ [i]"
      by (subst ends.simps(6)) simp
    with less.prems have "e = i \<or> e \<in> set (ends (Star (Cls p)) t (Suc i))"
      by auto
    then show ?thesis
    proof
      assume "e = i"
      then show ?thesis by auto
    next
      assume "e \<in> set (ends (Star (Cls p)) t (Suc i))"
      moreover have "length t - Suc i < length t - i" using True by auto
      ultimately have ih: "Suc i \<le> e \<and> (e = Suc i \<or> e \<le> length t) \<and>
          (\<forall>k. Suc i \<le> k \<and> k < e \<longrightarrow> p (t ! k))"
        by (rule less.hyps[rotated])
      have "p (t ! k)" if "i \<le> k" "k < e" for k
      proof (cases "k = i")
        case True
        with \<open>i < length t \<and> p (t ! i)\<close> show ?thesis by simp
      next
        case False
        with that ih show ?thesis by simp
      qed
      with ih True show ?thesis by auto
    qed
  next
    case False
    then have "ends (Star (Cls p)) t i = [i]" by (subst ends.simps(6)) auto
    with less.prems show ?thesis by auto
  qed
qed

lemma lit_Nil: "lit [] = Eps"
  by (simp add: lit_def seqs_def)

lemma lit_Cons: "lit (c # h) = Seq (chr c) (lit h)"
  by (simp add: lit_def seqs_def)

lemma ends_lit:
  "e \<in> set (ends (lit h) t i) \<Longrightarrow> e = i + length h \<and> take (length h) (drop i t) = h"
proof (induction h arbitrary: i)
  case Nil
  then show ?case by (simp add: lit_Nil)
next
  case (Cons c h)
  from Cons.prems have i: "i < length t" "t ! i = c" and e: "e \<in> set (ends (lit h) t (Suc i))"
    by (auto simp: lit_Cons ends_chr)
  from Cons.IH[OF e] have "e = Suc i + length h" "take (length h) (drop (Suc i) t) = h"
    by simp_all
  moreover have "drop i t = c # drop (Suc i) t"
    using i Cons_nth_drop_Suc[of i t] by simp
  ultimately show ?case by simp
qed

lemma header_match_shape:
  assumes "e \<in> set (ends (header_pattern h) t i)"
  shows "i < length t \<and> t ! i = nl \<and>
     (\<exists>j. i < j \<and> j \<le> length t \<and> (\<forall>k. i < k \<and> k < j \<longrightarrow> is_space (t ! k)) \<and>
          take (length h) (drop j t) = h)"
proof -
  from assms obtain m1 m2 where m1: "m1 \<in> set (ends (chr nl) t i)"
    and m2: "m2 \<in> set (ends (Star sp) t m1)"
    and m3: "\<exists>m3 \<in> set (ends (lit h) t m2). True"
    unfolding header_pattern_def ends_seqs_Cons by auto
  from m1 have i: "i < length t" "t ! i = nl" "m1 = Suc i" by (simp_all add: ends_chr)
  from m2 have s: "m1 \<le> m2" "m2 = m1 \<or> m2 \<le> length t" "\<forall>k. m1 \<le> k \<and> k < m2 \<longrightarrow> is_space (t ! k)"
    using ends_Star_Cls[of m2 is_space t m1] by (simp_all add: sp_def)
  from m3 have "take (length h) (drop m2 t) = h" using ends_lit by blast
  with i s show ?thesis
    by (intro conjI exI[of _ m2]) auto
qed

lemma search_Some:
  assumes "search r t = Some (ms, me)"
  shows "ms \<le> length t \<and> ends r t ms \<noteq> [] \<and> me = hd (ends r t ms) \<and> (\<forall>i<ms. ends r t i = [])"
proof -
  from assms have f: "List.find (\<lambda>i. ends r t i \<noteq> []) [0..<Suc (length t)] = Some ms"
    and me: "me = hd (ends r t ms)"
    by (auto simp: search_def split: option.splits)
  from f obtain k where k: "k < length [0..<Suc (length t)]" "ends r t ([0..<Suc (length t)] ! k) \<noteq> []"
    "ms = [0..<Suc (length t)] ! k" "\<forall>j<k. \<not> ends r t ([0..<Suc (length t)] ! j) \<noteq> []"
    unfolding find_Some_iff by blast
  from k(1) have kl: "k < Suc (length t)" by simp
  then have nth: "[0..<Suc (length t)] ! j = j" if "j \<le> k" for j
    using that by (metis add_0 le_less_trans nth_upt)
  from k nth[of k] have msk: "ms = k" by simp
  have "ends r t j = []" if "j < ms" for j
    using k(4) that msk nth[of j] by auto
  with k kl msk me nth[of k] show ?thesis by auto
qed

lemma search_None:
  assumes "search r t = None" "i \<le> length t"
  shows "ends r t i = []"
proof -
  from assms(1) have "List.find (\<lambda>i. ends r t i \<noteq> []) [0..<Suc (length t)] = None"
    by (simp add: search_def split: option.splits)
  then have "\<forall>x\<in>set [0..<Suc (length t)]. ends r t x = []"
    unfolding find_None_iff by blast
  moreover have "i \<in> set [0..<Suc (length t)]" using assms(2) by auto
  ultimately show ?thesis by blast
qed

lemma header_found_after_newline:
  assumes "search (header_pattern h) t = Some (ms, me)"
  shows "header_after_newline h t"
proof -
  from search_Some[OF assms] have "hd (ends (header_pattern h) t ms) \<in> set (ends (header_pattern h) t ms)"
    by simp
  from header_match_shape[OF this] obtain j where
    ms: "ms < length t" "t ! ms = nl" and j: "ms < j" "j \<le> length t"
    "\<forall>k. ms < k \<and> k < j \<longrightarrow> is_space (t ! k)" "take (length h) (drop j t) = h"
    by blast
  show ?thesis
    unfolding header_after_newline_def list_ex_iff list_all_iff
    using ms j by (intro bexI[of _ ms] conjI bexI[of _ j]) auto
qed

lemma find_section_in_found:
  "fst (find_section_in low hs) \<noteq> - 1 \<Longrightarrow>
     \<exists>h\<in>set hs. \<exists>ms me. search (header_pattern h) low = Some (ms, me)"
  by (induction hs) (auto split: option.splits prod.splits)

lemma find_section_in_none:
  "list_all (\<lambda>h. search (header_pattern h) low = None) hs \<Longrightarrow> find_section_in low hs = (- 1, - 1)"
  by (induction hs) auto

lemma find_section_in_first:
  "list_all (\<lambda>h. search (header_pattern h) low = None) before \<Longrightarrow>
   search (header_pattern h) low = Some (ms, me) \<Longrightarrow>
   fst (find_section_in low (before @ h # after)) = int me"
  by (induction before) (auto simp: Let_def split: option.splits)

subsection \<open>Fallbacks and the assembler\<close>

lemma length_str_lower: "length (str_lower text) = length text"
  by (simp add: str_lower_def)

lemma median_nonzero_None: "list_all (\<lambda>x. x \<le> 0) xs \<Longrightarrow> median_nonzero xs = None"
  by (auto simp: median_nonzero_def Let_def list_all_iff filter_empty_conv)

lemma count_internships_falls_back:
  assumes "find_section text exp_headers = (start, end)" "start \<noteq> - 1"
    and "list_all (\<lambda>x. x \<le> 0) (internship_indicators text (str_lower text) start end)"
  shows "count_internships text =
     min (max (findall_len internship_fallback_pattern (str_lower text)) 0) 5"
  using assms by (simp add: count_internships_def Let_def median_nonzero_None)

lemma count_projects_falls_back:
  assumes "find_section text project_headers = (start, end)" "start \<noteq> - 1"
    and "list_all (\<lambda>x. x \<le> 0) (project_indicators text (str_lower text) start end)"
  shows "count_projects text =
     min (max (findall_len project_fallback_pattern (str_lower text)) 0) 8"
  using assms by (simp add: count_projects_def Let_def median_nonzero_None)

lemma internships_section_falls_back_example:
  "find_section ''intern\<newline>experience:\<newline>none\<newline>'' exp_headers = (18, 3018) \<and>
   count_internships ''intern\<newline>experience:\<newline>none\<newline>'' = 1"
  by code_simp

lemma parse_resume_total:
  "\<not> blank text \<Longrightarrow>
   parse_resume (Inr text) =
     Some (mk_metrics (count_internships text) (count_projects text)
       (count_certifications text) (count_skills text) (count_achievements text))"
  by (simp add: parse_resume_def parse_resume_with_def parse_body_def or_raise_def
      resume_counters_def)

section \<open>The claims\<close>

text \<open>
  Claim C1, as the code has it. For every metrics record the Score Normalizer caps each
  value at the ceiling of \<^verbatim>\<open>max_values\<close> (3 for internships, 4 for projects, 5 for
  certifications, 20 for skills, 5 for achievements), divides by that ceiling, multiplies by
  the weight (30, 25, 20, 15, 10) and rounds to two decimals; the rounding changes nothing,
  since each product has at most two decimals.
\<close>

theorem score_contributions:
  "score_of ''internships_score'' (calculate_resume_score (mk_metrics i p c s a)) =
     Some (contribution 3 30 i) \<and>
   score_of ''projects_score'' (calculate_resume_score (mk_metrics i p c s a)) =
     Some (contribution 4 25 p) \<and>
   score_of ''certifications_score'' (calculate_resume_score (mk_metrics i p c s a)) =
     Some (contribution 5 20 c) \<and>
   score_of ''skills_score'' (calculate_resume_score (mk_metrics i p c s a)) =
     Some (contribution 20 15 s) \<and>
   score_of ''achievements_score'' (calculate_resume_score (mk_metrics i p c s a)) =
     Some (contribution 5 10 a) \<and>
   contribution 3 30 i = of_int (10 * min i 3) \<and>
   contribution 4 25 p = of_int (25 * min p 4) / 4 \<and>
   contribution 5 20 c = of_int (4 * min c 5) \<and>
   contribution 20 15 s = of_int (3 * min s 20) / 4 \<and>
   contribution 5 10 a = of_int (2 * min a 5)"
  by (simp add: calculate_resume_score_mk score_of_def contribution_3_30 contribution_4_25
      contribution_5_20 contribution_20_15 contribution_5_10)

theorem score_contributions_witness:
  "score_of ''internships_score'' (calculate_resume_score (mk_metrics 2 3 1 12 0)) = Some 20 \<and>
   score_of ''projects_score'' (calculate_resume_score (mk_metrics 2 3 1 12 0)) = Some (75 / 4) \<and>
   score_of ''certifications_score'' (calculate_resume_score (mk_metrics 2 3 1 12 0)) = Some 4 \<and>
   score_of ''skills_score'' (calculate_resume_score (mk_metrics 2 3 1 12 0)) = Some 9 \<and>
   score_of ''achievements_score'' (calculate_resume_score (mk_metrics 2 3 1 12 0)) = Some 0"
  using score_contributions [of 2 3 1 12 0] by simp

text \<open>
  Claim C1 as stated takes the ceilings of the counters (5, 8, 10, 30, 8). With three
  internships the code gives the full 30 points, where a ceiling of 5 would give 18.
\<close>

theorem spec_ceilings_counterexample:
  "score_of ''internships_score'' (calculate_resume_score (mk_metrics 3 8 10 30 8)) = Some 30 \<and>
   contribution 5 30 3 = 18"
  by code_simp

text \<open>
  Claim C7. The five weights sum to exactly 100, and the record with every field at its cap
  (5, 8, 10, 30, 8) has total score 100.
\<close>

theorem weights_sum_and_full_score:
  "sum_list (map snd weights) = 100 \<and>
   score_of ''total_score'' (calculate_resume_score (mk_metrics 5 8 10 30 8)) = Some 100"
  by code_simp

text \<open>
  Claim C2. For every text the five counters stay within their caps: internships in 0..5,
  projects in 0..8, certifications in 0..10, skills in 0..30, achievements in 0..8. The
  total score of every record whose fields lie in those ranges is an integer in 0..100.
\<close>

theorem metrics_and_total_bounded:
  "(0 \<le> count_internships text \<and> count_internships text \<le> 5) \<and>
   (0 \<le> count_projects text \<and> count_projects text \<le> 8) \<and>
   (0 \<le> count_certifications text \<and> count_certifications text \<le> 10) \<and>
   (0 \<le> count_skills text \<and> count_skills text \<le> 30) \<and>
   (0 \<le> count_achievements text \<and> count_achievements text \<le> 8) \<and>
   (0 \<le> i \<and> i \<le> 5 \<and> 0 \<le> p \<and> p \<le> 8 \<and> 0 \<le> c \<and> c \<le> 10 \<and> 0 \<le> s \<and> s \<le> 30 \<and>
    0 \<le> a \<and> a \<le> 8 \<longrightarrow>
      (\<exists>total. score_of ''total_score'' (calculate_resume_score (mk_metrics i p c s a)) =
                  Some (of_int total) \<and> 0 \<le> total \<and> total \<le> 100))"
proof -
  have "0 \<le> py_round (exact_total i p c s a) \<and> py_round (exact_total i p c s a) \<le> 100"
    if "0 \<le> i" "0 \<le> p" "0 \<le> c" "0 \<le> s" "0 \<le> a"
    using exact_total_bounds[OF that] by (simp add: py_round_nonneg py_round_le)
  then show ?thesis
    using count_internships_bounds[of "text"] count_projects_bounds[of "text"]
      count_certifications_bounds[of "text"] count_skills_bounds[of "text"]
      count_achievements_bounds[of "text"]
    by (simp add: total_score_mk)
qed

theorem metrics_and_total_bounded_witness:
  "(0 \<le> count_internships ''Jane Doe'' \<and> count_internships ''Jane Doe'' \<le> 5) \<and>
   (0 \<le> count_projects ''Jane Doe'' \<and> count_projects ''Jane Doe'' \<le> 8) \<and>
   (0 \<le> count_certifications ''Jane Doe'' \<and> count_certifications ''Jane Doe'' \<le> 10) \<and>
   (0 \<le> count_skills ''Jane Doe'' \<and> count_skills ''Jane Doe'' \<le> 30) \<and>
   (0 \<le> count_achievements ''Jane Doe'' \<and> count_achievements ''Jane Doe'' \<le> 8) \<and>
   (\<exists>total. score_of ''total_score'' (calculate_resume_score (mk_metrics 4 2 10 17 8)) =
                  Some (of_int total) \<and> 0 \<le> total \<and> total \<le> 100)"
  using metrics_and_total_bounded [of "''Jane Doe''" 4 2 10 17 8] by simp

text \<open>
  Claim C4. On a nonempty list of nonnegative signals that are not all zero, the median
  reconciliation returns the element of the sorted nonzero signals at index
  \<open>length div 2\<close>; the max reconciliation returns the maximum. So \<open>[2, 4, 6]\<close> gives 4,
  \<open>[0, 0, 5]\<close> gives 5 and, under max, \<open>[1, 3, 2]\<close> gives 3.
\<close>

theorem signal_aggregator:
  "(xs \<noteq> [] \<and> (\<forall>x\<in>set xs. 0 \<le> x) \<and> (\<exists>x\<in>set xs. x \<noteq> 0) \<longrightarrow>
      median_nonzero xs =
        Some (sort (filter (\<lambda>x. x \<noteq> 0) xs) ! (length (filter (\<lambda>x. x \<noteq> 0) xs) div 2))) \<and>
   (xs \<noteq> [] \<longrightarrow> max_signal xs = Max (set xs)) \<and>
   median_nonzero [2, 4, 6] = Some 4 \<and>
   median_nonzero [0, 0, 5] = Some 5 \<and>
   max_signal [1, 3, 2] = 3"
proof -
  have "filter (\<lambda>i. 0 < i) xs = filter (\<lambda>x. x \<noteq> 0) xs" if "\<forall>x\<in>set xs. 0 \<le> x"
    using that by (intro filter_cong) auto
  moreover have "filter (\<lambda>x. x \<noteq> 0) xs \<noteq> []" if "\<exists>x\<in>set xs. x \<noteq> 0"
    using that by (simp add: filter_empty_conv)
  ultimately have "median_nonzero xs =
        Some (sort (filter (\<lambda>x. x \<noteq> 0) xs) ! (length (filter (\<lambda>x. x \<noteq> 0) xs) div 2))"
    if "\<forall>x\<in>set xs. 0 \<le> x" "\<exists>x\<in>set xs. x \<noteq> 0"
    using that by (simp add: median_nonzero_def Let_def)
  moreover have "median_nonzero [2, 4, 6] = Some 4" "median_nonzero [0, 0, 5] = Some 5"
    "max_signal [1, 3, 2] = 3"
    by (simp_all add: median_nonzero_def max_signal_def)
  ultimately show ?thesis
    by (simp add: max_signal_Max)
qed

theorem signal_aggregator_witness:
  "median_nonzero [3, 0, 1, 2] = Some 2 \<and> max_signal [3, 0, 1, 2] = 3"
  using signal_aggregator [of "[3, 0, 1, 2]"] by simp

text \<open>
  Claim C3, as the code has it. The Section Locator tries the candidate phrases in the
  order of the caller's list: the first phrase of the list that matches anywhere in the
  text decides, whatever lies earlier in the document, and the section starts where the
  leftmost match of that phrase ends.
\<close>

theorem first_candidate_in_priority_order:
  "list_all (\<lambda>h'. search (header_pattern h') (str_lower text) = None) before \<and>
   search (header_pattern h) (str_lower text) = Some (ms, me) \<longrightarrow>
     fst (find_section text (before @ h # after)) = int me \<and>
     (\<forall>i<ms. ends (header_pattern h) (str_lower text) i = [])"
  using find_section_in_first[of "str_lower text" before h ms me after]
    search_Some[of "header_pattern h" "str_lower text" ms me]
  by (simp add: find_section_def)

theorem first_candidate_in_priority_order_witness:
  "search (header_pattern ''project work'')
     (str_lower ''\<newline>Project Work:\<newline>x\<newline>\<newline>Key Projects\<newline>y\<newline>'') = Some (0, 14) \<and>
   search (header_pattern ''key projects'')
     (str_lower ''\<newline>Project Work:\<newline>x\<newline>\<newline>Key Projects\<newline>y\<newline>'') = Some (16, 31) \<and>
   fst (find_section ''\<newline>Project Work:\<newline>x\<newline>\<newline>Key Projects\<newline>y\<newline>'' project_headers) = 31"
proof -
  let ?t = "''\<newline>Project Work:\<newline>x\<newline>\<newline>Key Projects\<newline>y\<newline>''"
  let ?before = "[''projects'', ''personal projects'', ''academic projects'']"
  let ?after = "[''technical projects'', ''major projects'', ''project work'', ''project experience'']"
  have none: "list_all (\<lambda>h'. search (header_pattern h') (str_lower ?t) = None) ?before"
    by code_simp
  have key: "search (header_pattern ''key projects'') (str_lower ?t) = Some (16, 31)"
    by code_simp
  have work: "search (header_pattern ''project work'') (str_lower ?t) = Some (0, 14)"
    by code_simp
  have hs: "project_headers = ?before @ ''key projects'' # ?after"
    by (simp add: project_headers_def)
  from first_candidate_in_priority_order[of ?t ?before "''key projects''" 16 31 ?after] none key
  have "fst (find_section ?t project_headers) = 31"
    unfolding hs by simp
  with key work show ?thesis by simp
qed

text \<open>
  Claim C3 as stated has the locator select the occurrence that comes first in document
  order. In the text below the candidate \<open>key projects\<close> heads the first line and the
  candidate \<open>projects\<close> a later one; the locator starts the section after the later
  header, since \<open>projects\<close> stands first in the list.
\<close>

theorem document_order_counterexample:
  "''key projects'' \<in> set project_headers \<and>
   search (header_pattern ''key projects'')
     (str_lower ''\<newline>key projects\<newline>alpha\<newline>projects\<newline>beta\<newline>'') = Some (0, 14) \<and>
   search (header_pattern ''projects'')
     (str_lower ''\<newline>key projects\<newline>alpha\<newline>projects\<newline>beta\<newline>'') = Some (19, 29) \<and>
   find_section ''\<newline>key projects\<newline>alpha\<newline>projects\<newline>beta\<newline>'' project_headers = (29, 3029)"
  by code_simp

text \<open>
  Claim C10. A match of a header pattern starts at a newline character, so a header phrase
  at character offset 0 is not recognised: when no candidate phrase occurs preceded by a
  newline, the section is reported as not found, \<open>(-1, -1)\<close>.
\<close>

theorem header_needs_leading_newline:
  "(\<not> list_ex (\<lambda>h. header_after_newline h (str_lower text)) hs \<longrightarrow>
      find_section text hs = (- 1, - 1)) \<and>
   (search (header_pattern h) (str_lower text) = Some (ms, me) \<longrightarrow>
      ms < length text \<and> str_lower text ! ms = nl)"
proof -
  have "find_section text hs = (- 1, - 1)"
    if "\<not> list_ex (\<lambda>h. header_after_newline h (str_lower text)) hs"
  proof -
    have "search (header_pattern h) (str_lower text) = None" if "h \<in> set hs" for h
    proof (cases "search (header_pattern h) (str_lower text)")
      case None
      then show ?thesis .
    next
      case (Some m)
      then have "header_after_newline h (str_lower text)"
        using header_found_after_newline[of h "str_lower text" "fst m" "snd m"] by simp
      with \<open>h \<in> set hs\<close> \<open>\<not> list_ex (\<lambda>h. header_after_newline h (str_lower text)) hs\<close>
      show ?thesis by (simp add: list_ex_iff)
    qed
    then show ?thesis
      by (simp add: find_section_def find_section_in_none list_all_iff)
  qed
  moreover have "ms < length text \<and> str_lower text ! ms = nl"
    if s: "search (header_pattern h) (str_lower text) = Some (ms, me)"
  proof -
    from search_Some[OF s]
    have "hd (ends (header_pattern h) (str_lower text) ms) \<in>
        set (ends (header_pattern h) (str_lower text) ms)"
      by simp
    from header_match_shape[OF this] show ?thesis
      by (simp add: length_str_lower)
  qed
  ultimately show ?thesis by blast
qed

theorem header_needs_leading_newline_witness:
  "\<not> list_ex (\<lambda>h. header_after_newline h (str_lower ''Projects:\<newline>Chat App\<newline>'')) project_headers \<and>
   find_section ''Projects:\<newline>Chat App\<newline>'' project_headers = (- 1, - 1) \<and>
   find_section ''\<newline>Projects:\<newline>Chat App\<newline>'' project_headers = (10, 3010)"
proof -
  have no: "\<not> list_ex (\<lambda>h. header_after_newline h (str_lower ''Projects:\<newline>Chat App\<newline>''))
      project_headers"
    by code_simp
  have found: "find_section ''\<newline>Projects:\<newline>Chat App\<newline>'' project_headers = (10, 3010)"
    by code_simp
  from header_needs_leading_newline[of "''Projects:\<newline>Chat App\<newline>''" project_headers] no
  have "find_section ''Projects:\<newline>Chat App\<newline>'' project_headers = (- 1, - 1)"
    by blast
  with no found show ?thesis by simp
qed




text \<open>
  Claim C5 at the certifications counter. Its section is found and all five signals are
  zero; the fallback pattern matches the full text once, yet the counter returns 0: the
  guard \<^verbatim>\<open>if indicators:\<close> tests a list that always has five elements. The internships
  and projects counters do go on to their fallback in that situation
  (\<open>count_internships_falls_back\<close>, \<open>count_projects_falls_back\<close>).
\<close>

theorem certifications_section_skips_fallback:
  "find_section ''udemy\<newline>certifications:\<newline>none\<newline>'' cert_headers = (21, 3021) \<and>
   cert_indicators (str_lower ''udemy\<newline>certifications:\<newline>none\<newline>'') 21 3021 = [0, 0, 0, 0, 0] \<and>
   findall_len cert_fallback_pattern (str_lower ''udemy\<newline>certifications:\<newline>none\<newline>'') = 1 \<and>
   count_certifications ''udemy\<newline>certifications:\<newline>none\<newline>'' = 0"
  by code_simp

text \<open>
  Claim C6 at a text whose projects section is found and holds no signal. The source notes
  \<^verbatim>\<open>At least 1 if section exists\<close>, but that floor stands in the branch where some signal
  is positive; here the counter falls to the global pattern and returns 0.
\<close>

theorem projects_section_found_count_zero:
  "find_section ''Jane Doe\<newline>Projects:\<newline>To be added\<newline>'' project_headers = (18, 3018) \<and>
   count_projects ''Jane Doe\<newline>Projects:\<newline>To be added\<newline>'' = 0"
  by code_simp

text \<open>
  Claim C8. Whatever the extraction yields and whichever counters raise, \<^verbatim>\<open>parse_resume\<close>
  returns either \<^verbatim>\<open>None\<close> or a dictionary with all five fields; when any counter raises
  the result is \<^verbatim>\<open>None\<close>, and a returned dictionary holds the five values the counters
  returned.
\<close>

theorem parse_all_or_nothing:
  "(parse_resume_with cs extracted = None \<or>
      (\<exists>i p c s a. parse_resume_with cs extracted = Some (mk_metrics i p c s a))) \<and>
   (extracted = Inr text \<and>
      (internships_of cs text = Inl e \<or> projects_of cs text = Inl e \<or>
       certifications_of cs text = Inl e \<or> skills_of cs text = Inl e \<or>
       achievements_of cs text = Inl e) \<longrightarrow>
      parse_resume_with cs extracted = None) \<and>
   (parse_resume_with cs extracted = Some m \<longrightarrow>
      map fst m = [''internships'', ''projects'', ''certifications'', ''skills'', ''achievements''] \<and>
      (\<exists>text i p c s a. extracted = Inr text \<and> \<not> blank text \<and>
         internships_of cs text = Inr i \<and> projects_of cs text = Inr p \<and>
         certifications_of cs text = Inr c \<and> skills_of cs text = Inr s \<and>
         achievements_of cs text = Inr a \<and> m = mk_metrics i p c s a))"
  by (auto simp: parse_resume_with_def parse_body_def or_raise_def mk_metrics_def
      split: sum.splits if_splits)

theorem parse_all_or_nothing_witness:
  "projects_of failing_counters ''Jane Doe, engineer'' = Inl OtherError \<and>
   parse_resume_with failing_counters (Inr ''Jane Doe, engineer'') = None"
  using parse_all_or_nothing [of failing_counters "Inr ''Jane Doe, engineer''"
      "''Jane Doe, engineer''" OtherError]
  by (simp add: failing_counters_def)

end
